theory Spec2Isabelle
  imports Main "HOL-Library.AList"
begin

section \<open>Python values\<close>

text \<open>
  The library stores and returns ordinary Python objects. The values modelled here are
  \<^verbatim>\<open>None\<close>, booleans, (unbounded) integers, floats, \<^verbatim>\<open>str\<close>, \<^verbatim>\<open>bytes\<close>, lists and
  dictionaries whose keys are \<^verbatim>\<open>None\<close>, booleans, numbers or text. A \<^verbatim>\<open>str\<close> is its
  sequence of code points; a literal is written \<open>str ''abc''\<close>. A dictionary is an
  association list in insertion order (Python dictionaries keep it).

  Finite floats are an abstract type \<open>'f\<close>: the two builtins of the interpreter that the
  \<^verbatim>\<open>json\<close> module calls on them, \<^verbatim>\<open>float.__repr__\<close> and \<^verbatim>\<open>float(text)\<close>, are carried in a
  record of type \<open>'f interp\<close> that every function below that reaches \<^verbatim>\<open>json\<close> takes as
  its first argument.
\<close>

type_synonym pystr = "nat list"

definition str :: "string \<Rightarrow> pystr" where
  "str s = map of_char s"

datatype 'f pyfloat = NaN | PosInf | NegInf | Finite 'f

datatype 'f pykey = KNone | KBool bool | KInt int | KFloat "'f pyfloat" | KStr pystr

datatype 'f pyval =
    PNone
  | PBool bool
  | PInt int
  | PFloat "'f pyfloat"
  | PStr pystr
  | PBytes "nat list"
  | PList "'f pyval list"
  | PDict "('f pykey \<times> 'f pyval) list"

record 'f interp =
  float_repr :: "'f \<Rightarrow> pystr"
  float_of_str :: "pystr \<Rightarrow> 'f pyfloat"

text \<open>
  Exceptions are values. The library raises \<^verbatim>\<open>ValueError\<close> with three different messages
  in \<^verbatim>\<open>add_row\<close> and a fourth in \<^verbatim>\<open>create\<close>, and \<^verbatim>\<open>KeyError\<close> for a missing table or a
  missing row field; they are kept apart under the names the specification gives them.
\<close>

datatype exn =
    TypeError
  | JSONDecodeError
  | UnicodeDecodeError
  | IndexError
  | OperationalError          \<comment> \<open>\<^verbatim>\<open>sqlite3.OperationalError\<close>\<close>
  | SchemaMismatch            \<comment> \<open>\<^verbatim>\<open>ValueError("Number of fields in row does not match ...")\<close>\<close>
  | UnknownField pystr        \<comment> \<open>\<^verbatim>\<open>ValueError("Field '...' does not exist in table schema.")\<close>\<close>
  | TypeMismatch pystr        \<comment> \<open>\<^verbatim>\<open>ValueError("Field '...' type does not match ...")\<close>\<close>
  | TableAlreadyExists pystr  \<comment> \<open>\<^verbatim>\<open>ValueError("Table '...' already exists.")\<close>\<close>
  | TableNotFound pystr       \<comment> \<open>\<^verbatim>\<open>KeyError("Table '...' does not exist.")\<close>\<close>
  | FieldNotFound pystr       \<comment> \<open>\<^verbatim>\<open>KeyError(field)\<close> of a dictionary lookup\<close>

section \<open>\<^verbatim>\<open>json.dumps\<close>\<close>

text \<open>
  \<^verbatim>\<open>json.dumps(value)\<close> with its default arguments: separators \<^verbatim>\<open>", "\<close> and \<^verbatim>\<open>": "\<close>,
  \<^verbatim>\<open>ensure_ascii=True\<close>, \<^verbatim>\<open>allow_nan=True\<close>, keys in dictionary order.
\<close>

fun nat_digits :: "nat \<Rightarrow> pystr" where
  "nat_digits n = (if n < 10 then [48 + n] else nat_digits (n div 10) @ [48 + n mod 10])"

declare nat_digits.simps [simp del]

definition int_repr :: "int \<Rightarrow> pystr" where
  "int_repr i = (if i < 0 then 45 # nat_digits (nat (- i)) else nat_digits (nat i))"

definition floatstr :: "'f interp \<Rightarrow> 'f pyfloat \<Rightarrow> pystr" where
  "floatstr py f =
     (case f of NaN \<Rightarrow> str ''NaN'' | PosInf \<Rightarrow> str ''Infinity''
      | NegInf \<Rightarrow> str ''-Infinity'' | Finite x \<Rightarrow> float_repr py x)"

definition hexdigit :: "nat \<Rightarrow> nat" where
  "hexdigit d = (if d < 10 then 48 + d else 87 + d)"

definition hex4 :: "nat \<Rightarrow> pystr" where
  "hex4 n = [hexdigit (n div 4096 mod 16), hexdigit (n div 256 mod 16),
             hexdigit (n div 16 mod 16), hexdigit (n mod 16)]"

text \<open>
  One character of \<^verbatim>\<open>encode_basestring_ascii\<close>: the short escapes, printable ASCII as it
  is, \<^verbatim>\<open>\uXXXX\<close> below \<^verbatim>\<open>0x10000\<close> and a surrogate pair above.
\<close>

definition escape_char :: "nat \<Rightarrow> pystr" where
  "escape_char c =
     (if c = 34 then [92, 34]
      else if c = 92 then [92, 92]
      else if c = 10 then [92, 110]
      else if c = 13 then [92, 114]
      else if c = 9 then [92, 116]
      else if c = 8 then [92, 98]
      else if c = 12 then [92, 102]
      else if 32 \<le> c \<and> c \<le> 126 then [c]
      else if c < 65536 then [92, 117] @ hex4 c
      else (let n = c - 65536 in
            [92, 117] @ hex4 (55296 + n div 1024 mod 1024) @
            [92, 117] @ hex4 (56320 + n mod 1024)))"

definition encode_basestring_ascii :: "pystr \<Rightarrow> pystr" where
  "encode_basestring_ascii s = 34 # concat (map escape_char s) @ [34]"

definition key_text :: "'f interp \<Rightarrow> 'f pykey \<Rightarrow> pystr" where
  "key_text py k =
     (case k of KStr s \<Rightarrow> s
      | KFloat f \<Rightarrow> floatstr py f
      | KBool b \<Rightarrow> (if b then str ''true'' else str ''false'')
      | KNone \<Rightarrow> str ''null''
      | KInt i \<Rightarrow> int_repr i)"

fun json_text :: "'f interp \<Rightarrow> 'f pyval \<Rightarrow> pystr"
  and json_items :: "'f interp \<Rightarrow> 'f pyval list \<Rightarrow> pystr"
  and json_pairs :: "'f interp \<Rightarrow> ('f pykey \<times> 'f pyval) list \<Rightarrow> pystr"
where
  "json_text py PNone = str ''null''"
| "json_text py (PBool b) = (if b then str ''true'' else str ''false'')"
| "json_text py (PInt i) = int_repr i"
| "json_text py (PFloat f) = floatstr py f"
| "json_text py (PStr s) = encode_basestring_ascii s"
| "json_text py (PBytes b) = []"
| "json_text py (PList xs) = [91] @ json_items py xs @ [93]"
| "json_text py (PDict kvs) = [123] @ json_pairs py kvs @ [125]"
| "json_items py [] = []"
| "json_items py [x] = json_text py x"
| "json_items py (x # y # ys) = json_text py x @ [44, 32] @ json_items py (y # ys)"
| "json_pairs py [] = []"
| "json_pairs py [(k, v)] =
     encode_basestring_ascii (key_text py k) @ [58, 32] @ json_text py v"
| "json_pairs py ((k, v) # kv # kvs) =
     encode_basestring_ascii (key_text py k) @ [58, 32] @ json_text py v @ [44, 32] @
     json_pairs py (kv # kvs)"

text \<open>
  \<^verbatim>\<open>bytes\<close> is the one modelled type the encoder has no case for: it raises
  \<^verbatim>\<open>TypeError\<close> (\<^verbatim>\<open>Object of type bytes is not JSON serializable\<close>) when it meets one.
\<close>

fun json_serializable :: "'f pyval \<Rightarrow> bool" where
  "json_serializable (PBytes b) = False"
| "json_serializable (PList xs) = list_all json_serializable xs"
| "json_serializable (PDict kvs) = list_all (\<lambda>kv. json_serializable (snd kv)) kvs"
| "json_serializable v = True"

definition json_dumps :: "'f interp \<Rightarrow> 'f pyval \<Rightarrow> exn + pystr" where
  "json_dumps py v = (if json_serializable v then Inr (json_text py v) else Inl TypeError)"

section \<open>\<^verbatim>\<open>json.loads\<close>\<close>

subsection \<open>Text of a \<^verbatim>\<open>bytes\<close> argument\<close>

text \<open>
  \<^verbatim>\<open>json.loads\<close> turns a \<^verbatim>\<open>bytes\<close> argument into text first:
  \<^verbatim>\<open>s.decode(detect_encoding(s), 'surrogatepass')\<close>. A decoding failure is a
  \<^verbatim>\<open>UnicodeDecodeError\<close>, here \<open>None\<close>. Bytes are numbers below 256.
\<close>

datatype encoding = UTF8 | UTF8_SIG | UTF16 | UTF16_BE | UTF16_LE | UTF32 | UTF32_BE | UTF32_LE

definition detect_encoding :: "nat list \<Rightarrow> encoding" where
  "detect_encoding b =
     (if take 4 b = [0, 0, 254, 255] \<or> take 4 b = [255, 254, 0, 0] then UTF32
      else if take 2 b = [254, 255] \<or> take 2 b = [255, 254] then UTF16
      else if take 3 b = [239, 187, 191] then UTF8_SIG
      else if 4 \<le> length b then
        (if b ! 0 = 0 then (if b ! 1 = 0 then UTF32_BE else UTF16_BE)
         else if b ! 1 = 0 then (if b ! 2 = 0 \<and> b ! 3 = 0 then UTF32_LE else UTF16_LE)
         else UTF8)
      else if length b = 2 then
        (if b ! 0 = 0 then UTF16_BE else if b ! 1 = 0 then UTF16_LE else UTF8)
      else UTF8)"

definition is_cont :: "nat \<Rightarrow> bool" where
  "is_cont b = (128 \<le> b \<and> b \<le> 191)"

fun utf8_decode :: "nat list \<Rightarrow> pystr option" where
  "utf8_decode [] = Some []"
| "utf8_decode (b0 # r) =
     (if b0 < 128 then map_option ((#) b0) (utf8_decode r)
      else if 194 \<le> b0 \<and> b0 \<le> 223 then
        (case r of
           b1 # r1 \<Rightarrow>
             if is_cont b1
             then map_option ((#) ((b0 - 192) * 64 + (b1 - 128))) (utf8_decode r1)
             else None
         | _ \<Rightarrow> None)
      else if 224 \<le> b0 \<and> b0 \<le> 239 then
        (case r of
           b1 # b2 # r2 \<Rightarrow>
             if is_cont b1 \<and> is_cont b2 \<and> (if b0 = 224 then 160 \<le> b1 else True)
             then map_option ((#) (((b0 - 224) * 64 + (b1 - 128)) * 64 + (b2 - 128)))
                    (utf8_decode r2)
             else None
         | _ \<Rightarrow> None)
      else if 240 \<le> b0 \<and> b0 \<le> 244 then
        (case r of
           b1 # b2 # b3 # r3 \<Rightarrow>
             if is_cont b1 \<and> is_cont b2 \<and> is_cont b3 \<and>
                (if b0 = 240 then 144 \<le> b1 else if b0 = 244 then b1 \<le> 143 else True)
             then map_option
                    ((#) ((((b0 - 240) * 64 + (b1 - 128)) * 64 + (b2 - 128)) * 64 + (b3 - 128)))
                    (utf8_decode r3)
             else None
         | _ \<Rightarrow> None)
      else None)"

fun utf16_units :: "bool \<Rightarrow> nat list \<Rightarrow> nat list option" where
  "utf16_units be [] = Some []"
| "utf16_units be [b] = None"
| "utf16_units be (b0 # b1 # r) =
     map_option ((#) (if be then b0 * 256 + b1 else b1 * 256 + b0)) (utf16_units be r)"

fun join_surrogates :: "nat list \<Rightarrow> pystr" where
  "join_surrogates (u # v # r) =
     (if 55296 \<le> u \<and> u \<le> 56319 \<and> 56320 \<le> v \<and> v \<le> 57343
      then (65536 + (u - 55296) * 1024 + (v - 56320)) # join_surrogates r
      else u # join_surrogates (v # r))"
| "join_surrogates r = r"

fun utf32_decode :: "bool \<Rightarrow> nat list \<Rightarrow> pystr option" where
  "utf32_decode be [] = Some []"
| "utf32_decode be (b0 # b1 # b2 # b3 # r) =
     (let c = (if be then ((b0 * 256 + b1) * 256 + b2) * 256 + b3
               else ((b3 * 256 + b2) * 256 + b1) * 256 + b0)
      in if c < 1114112 then map_option ((#) c) (utf32_decode be r) else None)"
| "utf32_decode be r = None"

definition bytes_decode :: "nat list \<Rightarrow> pystr option" where
  "bytes_decode b =
     (case detect_encoding b of
        UTF8 \<Rightarrow> utf8_decode b
      | UTF8_SIG \<Rightarrow> utf8_decode (drop 3 b)
      | UTF16 \<Rightarrow> map_option join_surrogates (utf16_units (take 2 b = [254, 255]) (drop 2 b))
      | UTF16_BE \<Rightarrow> map_option join_surrogates (utf16_units True b)
      | UTF16_LE \<Rightarrow> map_option join_surrogates (utf16_units False b)
      | UTF32 \<Rightarrow> utf32_decode (take 4 b = [0, 0, 254, 255]) (drop 4 b)
      | UTF32_BE \<Rightarrow> utf32_decode True b
      | UTF32_LE \<Rightarrow> utf32_decode False b)"

subsection \<open>Strings\<close>

definition is_ws :: "nat \<Rightarrow> bool" where
  "is_ws c = (c = 32 \<or> c = 9 \<or> c = 10 \<or> c = 13)"

definition skip_ws :: "pystr \<Rightarrow> pystr" where
  "skip_ws s = dropWhile is_ws s"

definition is_digit :: "nat \<Rightarrow> bool" where
  "is_digit c = (48 \<le> c \<and> c \<le> 57)"

definition hexval :: "nat \<Rightarrow> nat option" where
  "hexval c =
     (if 48 \<le> c \<and> c \<le> 57 then Some (c - 48)
      else if 97 \<le> c \<and> c \<le> 102 then Some (c - 87)
      else if 65 \<le> c \<and> c \<le> 70 then Some (c - 55)
      else None)"

fun decode_uXXXX :: "pystr \<Rightarrow> nat option" where
  "decode_uXXXX (a # b # c # d # r) =
     (case (hexval a, hexval b, hexval c, hexval d) of
        (Some x, Some y, Some z, Some w) \<Rightarrow> Some (((x * 16 + y) * 16 + z) * 16 + w)
      | _ \<Rightarrow> None)"
| "decode_uXXXX r = None"

definition backslash :: "nat \<Rightarrow> nat option" where
  "backslash e =
     (if e = 34 then Some 34
      else if e = 92 then Some 92
      else if e = 47 then Some 47
      else if e = 98 then Some 8
      else if e = 102 then Some 12
      else if e = 110 then Some 10
      else if e = 114 then Some 13
      else if e = 116 then Some 9
      else None)"

definition prepend :: "nat \<Rightarrow> (pystr \<times> pystr) option \<Rightarrow> (pystr \<times> pystr) option" where
  "prepend c res = (case res of None \<Rightarrow> None | Some (s, r) \<Rightarrow> Some (c # s, r))"

text \<open>
  \<^verbatim>\<open>scanstring\<close> (strict) on the text after the opening quote: the decoded string and
  the text after the closing quote, or \<open>None\<close> for a \<^verbatim>\<open>JSONDecodeError\<close>.
\<close>

fun scanstring :: "pystr \<Rightarrow> (pystr \<times> pystr) option" where
  "scanstring [] = None"
| "scanstring (c # r) =
     (if c = 34 then Some ([], r)
      else if c = 92 then
        (case r of
           [] \<Rightarrow> None
         | esc # r1 \<Rightarrow>
             if esc = 117 then
               (case decode_uXXXX r1 of
                  None \<Rightarrow> None
                | Some uni \<Rightarrow>
                    (let r2 = drop 4 r1 in
                     if 55296 \<le> uni \<and> uni \<le> 56319 \<and> take 2 r2 = [92, 117] then
                       (case decode_uXXXX (drop 2 r2) of
                          None \<Rightarrow> None
                        | Some uni2 \<Rightarrow>
                            if 56320 \<le> uni2 \<and> uni2 \<le> 57343
                            then prepend (65536 + ((uni - 55296) * 1024 + (uni2 - 56320)))
                                   (scanstring (drop 6 r2))
                            else prepend uni (scanstring r2))
                     else prepend uni (scanstring r2)))
             else
               (case backslash esc of
                  None \<Rightarrow> None
                | Some ch \<Rightarrow> prepend ch (scanstring r1)))
      else if c < 32 then None
      else prepend c (scanstring r))"

subsection \<open>Numbers\<close>

text \<open>
  The number pattern \<^verbatim>\<open>(-?(?:0|[1-9][0-9]*))(\.[0-9]+)?([eE][-+]?[0-9]+)?\<close>: the three
  groups and the text after the match.
\<close>

definition match_integer :: "pystr \<Rightarrow> (pystr \<times> pystr) option" where
  "match_integer s =
     (let (sg, s1) = (case s of [] \<Rightarrow> ([], s) | c # t \<Rightarrow> if c = 45 then ([45], t) else ([], s))
      in case s1 of
           [] \<Rightarrow> None
         | d # r \<Rightarrow>
             if d = 48 then Some (sg @ [48], r)
             else if 49 \<le> d \<and> d \<le> 57
             then Some (sg @ d # takeWhile is_digit r, dropWhile is_digit r)
             else None)"

definition match_frac :: "pystr \<Rightarrow> pystr \<times> pystr" where
  "match_frac r =
     (case r of
        dot # d # r' \<Rightarrow>
          if dot = 46 \<and> is_digit d
          then (46 # d # takeWhile is_digit r', dropWhile is_digit r')
          else ([], r)
      | _ \<Rightarrow> ([], r))"

definition match_exp :: "pystr \<Rightarrow> pystr \<times> pystr" where
  "match_exp r =
     (case r of
        [] \<Rightarrow> ([], r)
      | e # r' \<Rightarrow>
          if e = 101 \<or> e = 69 then
            (let (sg, r'') = (case r' of
                                [] \<Rightarrow> ([], r')
                              | c # t \<Rightarrow> if c = 43 \<or> c = 45 then ([c], t) else ([], r'))
             in case r'' of
                  [] \<Rightarrow> ([], r)
                | d # t \<Rightarrow>
                    if is_digit d
                    then (e # sg @ takeWhile is_digit r'', dropWhile is_digit r'')
                    else ([], r))
          else ([], r))"

definition match_number :: "pystr \<Rightarrow> (pystr \<times> pystr \<times> pystr \<times> pystr) option" where
  "match_number s =
     (case match_integer s of
        None \<Rightarrow> None
      | Some (integer, r) \<Rightarrow>
          (let (frac, r1) = match_frac r; (exp, r2) = match_exp r1
           in Some (integer, frac, exp, r2)))"

definition digits_val :: "pystr \<Rightarrow> nat" where
  "digits_val ds = foldl (\<lambda>a d. 10 * a + (d - 48)) 0 ds"

definition int_of_str :: "pystr \<Rightarrow> int" where
  "int_of_str s =
     (case s of
        [] \<Rightarrow> 0
      | c # ds \<Rightarrow> if c = 45 then - int (digits_val ds) else int (digits_val s))"

subsection \<open>Values\<close>

text \<open>\<^verbatim>\<open>dict(pairs)\<close>: a later pair with the same key replaces the value of the earlier one.\<close>

definition py_dict :: "(pystr \<times> 'f pyval) list \<Rightarrow> ('f pykey \<times> 'f pyval) list" where
  "py_dict ps = foldl (\<lambda>d kv. AList.update (KStr (fst kv)) (snd kv) d) [] ps"

lemma length_skip_ws: "length (skip_ws s) \<le> length s"
  by (simp add: skip_ws_def length_dropWhile_le)

lemma prepend_Some: "prepend c res = Some (t, r) \<Longrightarrow> \<exists>t'. res = Some (t', r) \<and> t = c # t'"
  by (auto simp: prepend_def split: option.splits)

lemma scanstring_shorter: "scanstring s = Some (t, r) \<Longrightarrow> length r < length s"
proof (induction s arbitrary: t r rule: scanstring.induct)
  case 1
  then show ?case by simp
next
  case (2 c r0)
  show ?case
  proof (cases "c = 34")
    case True
    with "2.prems" show ?thesis by simp
  next
    case c34: False
    show ?thesis
    proof (cases "c = 92")
      case False
      with c34 "2.prems" have "c \<ge> 32" and p: "prepend c (scanstring r0) = Some (t, r)"
        by (auto split: if_splits)
      from prepend_Some [OF p] obtain t' where "scanstring r0 = Some (t', r)" by blast
      with "2.IH"(5) [OF c34 False] \<open>c \<ge> 32\<close> have "length r < length r0" by auto
      then show ?thesis by simp
    next
      case True
      show ?thesis
      proof (cases r0)
        case Nil
        with True "2.prems" show ?thesis by simp
      next
        case (Cons esc r1)
        show ?thesis
        proof (cases "esc = 117")
          case False
          with True Cons c34 "2.prems" obtain ch where ch: "backslash esc = Some ch"
            and p: "prepend ch (scanstring r1) = Some (t, r)"
            by (auto split: option.splits)
          from prepend_Some [OF p] obtain t' where "scanstring r1 = Some (t', r)" by blast
          with "2.IH"(4) [OF c34 True Cons False ch] have "length r < length r1" by auto
          with Cons show ?thesis by simp
        next
          case u: True
          with True Cons c34 "2.prems" obtain uni where uni: "decode_uXXXX r1 = Some uni"
            by (auto split: option.splits)
          let ?r2 = "drop 4 r1"
          show ?thesis
          proof (cases "55296 \<le> uni \<and> uni \<le> 56319 \<and> take 2 ?r2 = [92, 117]")
            case False
            with True Cons c34 u uni "2.prems"
            have p: "prepend uni (scanstring ?r2) = Some (t, r)"
              by (auto simp: Let_def split: if_splits)
            from prepend_Some [OF p] obtain t' where "scanstring ?r2 = Some (t', r)" by blast
            with "2.IH"(3) [OF c34 True Cons u uni refl False] have "length r < length ?r2"
              by auto
            with Cons show ?thesis by simp
          next
            case hi: True
            with True Cons c34 u uni "2.prems" obtain uni2
              where uni2: "decode_uXXXX (drop 2 ?r2) = Some uni2"
              by (auto simp: Let_def split: option.splits)
            show ?thesis
            proof (cases "56320 \<le> uni2 \<and> uni2 \<le> 57343")
              case lo: True
              with hi True Cons c34 u uni uni2 "2.prems"
              have p: "prepend (65536 + ((uni - 55296) * 1024 + (uni2 - 56320)))
                         (scanstring (drop 6 ?r2)) = Some (t, r)"
                by (simp add: Let_def)
              from prepend_Some [OF p] obtain t' where "scanstring (drop 6 ?r2) = Some (t', r)"
                by blast
              with "2.IH"(1) [OF c34 True Cons u uni refl hi uni2 lo]
              have "length r < length (drop 6 ?r2)" by auto
              with Cons show ?thesis by simp
            next
              case lo: False
              with hi True Cons c34 u uni uni2 "2.prems"
              have p: "prepend uni (scanstring ?r2) = Some (t, r)"
                by (simp add: Let_def)
              from prepend_Some [OF p] obtain t' where "scanstring ?r2 = Some (t', r)" by blast
              with "2.IH"(2) [OF c34 True Cons u uni refl hi uni2 lo]
              have "length r < length ?r2" by auto
              with Cons show ?thesis by simp
            qed
          qed
        qed
      qed
    qed
  qed
qed

text \<open>
  \<^verbatim>\<open>scan_once\<close> with the array and object parsers it calls and that call it. Each takes
  the text from its position on and returns the value and the text after it; \<open>None\<close> is
  a \<^verbatim>\<open>JSONDecodeError\<close>. \<open>parse_array\<close> and \<open>parse_object\<close> start after the opening
  bracket, \<open>parse_pairs\<close> after the opening quote of a key. The two length tests make
  the recursion well-founded; \<open>scan_once_shorter\<close> below shows that they always hold.
\<close>

function scan_once :: "'f interp \<Rightarrow> pystr \<Rightarrow> ('f pyval \<times> pystr) option"
  and parse_array :: "'f interp \<Rightarrow> pystr \<Rightarrow> ('f pyval list \<times> pystr) option"
  and parse_items :: "'f interp \<Rightarrow> pystr \<Rightarrow> ('f pyval list \<times> pystr) option"
  and parse_object :: "'f interp \<Rightarrow> pystr \<Rightarrow> ((pystr \<times> 'f pyval) list \<times> pystr) option"
  and parse_pairs :: "'f interp \<Rightarrow> pystr \<Rightarrow> ((pystr \<times> 'f pyval) list \<times> pystr) option"
where
  "scan_once py s =
     (case s of
        [] \<Rightarrow> None
      | c # r \<Rightarrow>
          if c = 34 then
            (case scanstring r of None \<Rightarrow> None | Some (t, r') \<Rightarrow> Some (PStr t, r'))
          else if c = 123 then
            (case parse_object py r of
               None \<Rightarrow> None
             | Some (ps, r') \<Rightarrow> Some (PDict (py_dict ps), r'))
          else if c = 91 then
            (case parse_array py r of None \<Rightarrow> None | Some (xs, r') \<Rightarrow> Some (PList xs, r'))
          else if c = 110 \<and> take 4 s = str ''null'' then Some (PNone, drop 4 s)
          else if c = 116 \<and> take 4 s = str ''true'' then Some (PBool True, drop 4 s)
          else if c = 102 \<and> take 5 s = str ''false'' then Some (PBool False, drop 5 s)
          else
            (case match_number s of
               Some (integer, frac, exp, r') \<Rightarrow>
                 Some (if frac = [] \<and> exp = [] then PInt (int_of_str integer)
                       else PFloat (float_of_str py (integer @ frac @ exp)), r')
             | None \<Rightarrow>
                 if c = 78 \<and> take 3 s = str ''NaN'' then Some (PFloat NaN, drop 3 s)
                 else if c = 73 \<and> take 8 s = str ''Infinity'' then Some (PFloat PosInf, drop 8 s)
                 else if c = 45 \<and> take 9 s = str ''-Infinity'' then Some (PFloat NegInf, drop 9 s)
                 else None))"
| "parse_array py r =
     (case skip_ws r of
        [] \<Rightarrow> None
      | c # r' \<Rightarrow> if c = 93 then Some ([], r') else parse_items py (c # r'))"
| "parse_items py s =
     (case scan_once py s of
        None \<Rightarrow> None
      | Some (v, r) \<Rightarrow>
          (case skip_ws r of
             [] \<Rightarrow> None
           | c # r' \<Rightarrow>
               if c = 93 then Some ([v], r')
               else if c = 44 \<and> length r' < length s then
                 (case parse_items py (skip_ws r') of
                    None \<Rightarrow> None
                  | Some (vs, r'') \<Rightarrow> Some (v # vs, r''))
               else None))"
| "parse_object py r =
     (case skip_ws r of
        [] \<Rightarrow> None
      | c # r' \<Rightarrow>
          if c = 125 then Some ([], r')
          else if c = 34 then parse_pairs py r'
          else None)"
| "parse_pairs py s =
     (case scanstring s of
        None \<Rightarrow> None
      | Some (key, r) \<Rightarrow>
          (case skip_ws r of
             [] \<Rightarrow> None
           | c # r1 \<Rightarrow>
               if c = 58 then
                 (case scan_once py (skip_ws r1) of
                    None \<Rightarrow> None
                  | Some (v, r2) \<Rightarrow>
                      (case skip_ws r2 of
                         [] \<Rightarrow> None
                       | d # r3 \<Rightarrow>
                           if d = 125 then Some ([(key, v)], r3)
                           else if d = 44 then
                             (case skip_ws r3 of
                                [] \<Rightarrow> None
                              | q # r4 \<Rightarrow>
                                  if q = 34 \<and> length r4 < length s then
                                    (case parse_pairs py r4 of
                                       None \<Rightarrow> None
                                     | Some (ps, r5) \<Rightarrow> Some ((key, v) # ps, r5))
                                  else None)
                           else None))
               else None))"
  by pat_completeness auto
termination
proof (relation "measure (\<lambda>x. case x of
          Inl (Inl (py, s)) \<Rightarrow> 3 * length s
        | Inl (Inr (py, r)) \<Rightarrow> 3 * length r + 2
        | Inr (Inl (py, s)) \<Rightarrow> 3 * length s + 1
        | Inr (Inr (Inl (py, r))) \<Rightarrow> 3 * length r + 2
        | Inr (Inr (Inr (py, s))) \<Rightarrow> 3 * length s + 1)", goal_cases)
  case 1
  then show ?case by simp
next
  case (2 py s c r)
  then show ?case by simp
next
  case (3 py s c r)
  then show ?case by simp
next
  case (4 py r c r')
  then show ?case using length_skip_ws [of r] by simp
next
  case (5 py s)
  then show ?case by simp
next
  case (6 py s x2 v r c r')
  then show ?case using length_skip_ws [of r'] by simp
next
  case (7 py r c r')
  then show ?case using length_skip_ws [of r] by simp
next
  case (8 py s x2 key r c r1)
  then show ?case
    using length_skip_ws [of r1] length_skip_ws [of r] scanstring_shorter [of s key r] by simp
next
  case (9 py s x2 key r c r1 x2a v r2 d r3 q r4)
  then show ?case by simp
qed

declare scan_once.simps [simp del] parse_array.simps [simp del] parse_items.simps [simp del]
  parse_object.simps [simp del] parse_pairs.simps [simp del]

text \<open>
  \<^verbatim>\<open>json.loads(value)\<close>: text that starts with a byte order mark is refused, \<^verbatim>\<open>bytes\<close> are
  decoded first, anything else is a \<^verbatim>\<open>TypeError\<close>; around the one value only whitespace
  may stand.
\<close>

definition decode_text :: "'f interp \<Rightarrow> pystr \<Rightarrow> exn + 'f pyval" where
  "decode_text py s =
     (case scan_once py (skip_ws s) of
        None \<Rightarrow> Inl JSONDecodeError
      | Some (obj, r) \<Rightarrow> if skip_ws r = [] then Inr obj else Inl JSONDecodeError)"

definition json_loads :: "'f interp \<Rightarrow> 'f pyval \<Rightarrow> exn + 'f pyval" where
  "json_loads py v =
     (case v of
        PStr s \<Rightarrow> if take 1 s = [65279] then Inl JSONDecodeError else decode_text py s
      | PBytes b \<Rightarrow>
          (case bytes_decode b of
             None \<Rightarrow> Inl UnicodeDecodeError
           | Some s \<Rightarrow> decode_text py s)
      | _ \<Rightarrow> Inl TypeError)"

section \<open>The library\<close>

subsection \<open>Types and \<^verbatim>\<open>isinstance\<close>\<close>

text \<open>
  A field's \<^verbatim>\<open>data_type\<close> is a Python type object: one of the classes of the modelled
  values, or \<^verbatim>\<open>Union[list, dict]\<close>, which \<^verbatim>\<open>load\<close> gives a \<^verbatim>\<open>JSON\<close> column
  (\<^verbatim>\<open>isinstance\<close> accepts it from Python 3.10 on). \<^verbatim>\<open>bool\<close> is a subclass of \<^verbatim>\<open>int\<close>.
\<close>

datatype pytype =
  T_int | T_float | T_str | T_bool | T_bytes | T_NoneType | T_list | T_dict | T_Union_list_dict

fun type_of :: "'f pyval \<Rightarrow> pytype" where
  "type_of PNone = T_NoneType"
| "type_of (PBool b) = T_bool"
| "type_of (PInt i) = T_int"
| "type_of (PFloat f) = T_float"
| "type_of (PStr s) = T_str"
| "type_of (PBytes b) = T_bytes"
| "type_of (PList xs) = T_list"
| "type_of (PDict kvs) = T_dict"

definition isinstance :: "'f pyval \<Rightarrow> pytype \<Rightarrow> bool" where
  "isinstance v t =
     (type_of v = t \<or> (t = T_int \<and> type_of v = T_bool) \<or>
      (t = T_Union_list_dict \<and> (type_of v = T_list \<or> type_of v = T_dict)))"

subsection \<open>\<^verbatim>\<open>serialize\<close> and \<^verbatim>\<open>deserialize\<close>\<close>

definition serialize :: "'f interp \<Rightarrow> 'f pyval \<Rightarrow> exn + 'f pyval" where
  "serialize py value =
     (if isinstance value T_dict \<or> isinstance value T_list then
        (case json_dumps py value of Inl e \<Rightarrow> Inl e | Inr s \<Rightarrow> Inr (PStr s))
      else Inr value)"

text \<open>
  \<^verbatim>\<open>deserialize\<close> catches \<^verbatim>\<open>TypeError\<close> and \<^verbatim>\<open>json.JSONDecodeError\<close> and nothing else.
\<close>

definition deserialize :: "'f interp \<Rightarrow> 'f pyval \<Rightarrow> exn + 'f pyval" where
  "deserialize py value =
     (case json_loads py value of
        Inr r \<Rightarrow> Inr r
      | Inl e \<Rightarrow> if e = TypeError \<or> e = JSONDecodeError then Inr value else Inl e)"

subsection \<open>\<^verbatim>\<open>Field\<close> and \<^verbatim>\<open>Row\<close>\<close>

record field =
  name :: pystr
  data_type :: pytype

text \<open>
  \<open>row_fields\<close> is the row's \<^verbatim>\<open>fields\<close> dictionary, in insertion order. Keyword
  arguments (\<^verbatim>\<open>**kwargs\<close>) are a list of pairs of a name and a value in call order; in a
  call the names are distinct.
\<close>

record 'f row =
  row_fields :: "(pystr \<times> 'f pyval) list"

fun Row_init_loop ::
  "'f interp \<Rightarrow> (pystr \<times> 'f pyval) list \<Rightarrow> (pystr \<times> 'f pyval) list \<Rightarrow>
   exn + (pystr \<times> 'f pyval) list" where
  "Row_init_loop py d [] = Inr d"
| "Row_init_loop py d ((field_name, field_value) # kwargs) =
     (case serialize py field_value of
        Inl e \<Rightarrow> Inl e
      | Inr e \<Rightarrow> Row_init_loop py (AList.update field_name e d) kwargs)"

definition Row_init :: "'f interp \<Rightarrow> (pystr \<times> 'f pyval) list \<Rightarrow> exn + 'f row" where
  "Row_init py kwargs =
     (case Row_init_loop py [] kwargs of Inl e \<Rightarrow> Inl e | Inr d \<Rightarrow> Inr \<lparr>row_fields = d\<rparr>)"

text \<open>The dictionary comprehension of \<^verbatim>\<open>Row.get\<close>: every stored value, decoded.\<close>

fun decode_all ::
  "'f interp \<Rightarrow> (pystr \<times> 'f pyval) list \<Rightarrow> exn + ('f pykey \<times> 'f pyval) list" where
  "decode_all py [] = Inr []"
| "decode_all py ((i, e) # d) =
     (case deserialize py e of
        Inl x \<Rightarrow> Inl x
      | Inr v \<Rightarrow>
          (case decode_all py d of Inl x \<Rightarrow> Inl x | Inr m \<Rightarrow> Inr ((KStr i, v) # m)))"

definition Row_get :: "'f interp \<Rightarrow> 'f row \<Rightarrow> pystr \<Rightarrow> exn + 'f pyval" where
  "Row_get py r field =
     (if field = [] then
        (case decode_all py (row_fields r) of Inl e \<Rightarrow> Inl e | Inr m \<Rightarrow> Inr (PDict m))
      else
        (case map_of (row_fields r) field of
           None \<Rightarrow> Inl (FieldNotFound field)
         | Some e \<Rightarrow> deserialize py e))"

definition Row_add_field :: "'f interp \<Rightarrow> 'f row \<Rightarrow> pystr \<Rightarrow> 'f pyval \<Rightarrow> exn + 'f row" where
  "Row_add_field py r field_name field_value =
     (case serialize py field_value of
        Inl e \<Rightarrow> Inl e
      | Inr e \<Rightarrow> Inr (r\<lparr>row_fields := AList.update field_name e (row_fields r)\<rparr>))"

subsection \<open>\<^verbatim>\<open>Table\<close>\<close>

text \<open>
  \<open>t_fields\<close> and \<open>t_rows\<close> are the attributes \<^verbatim>\<open>_fields\<close> and \<^verbatim>\<open>_rows\<close>. A method that
  changes the table returns the table after the call; \<open>add_row\<close>, which can raise,
  returns the exception (\<open>None\<close> when it returns normally) together with the table as
  the call leaves it.
\<close>

record 'f table =
  t_name :: pystr
  t_fields :: "field list"
  t_rows :: "'f row list"

definition Table_init :: "pystr \<Rightarrow> 'f table" where
  "Table_init nm = \<lparr>t_name = nm, t_fields = [], t_rows = []\<rparr>"

definition add_field :: "'f table \<Rightarrow> pystr \<Rightarrow> pytype \<Rightarrow> 'f table" where
  "add_field t field_name dt =
     t\<lparr>t_fields := t_fields t @ [\<lparr>name = field_name, data_type = dt\<rparr>]\<rparr>"

definition add_fields :: "'f table \<Rightarrow> (pystr \<times> pytype) list \<Rightarrow> 'f table" where
  "add_fields t fields_dict = foldl (\<lambda>t' fd. add_field t' (fst fd) (snd fd)) t fields_dict"

definition delete_keys :: "pystr list \<Rightarrow> 'f row \<Rightarrow> 'f row" where
  "delete_keys field_names r =
     r\<lparr>row_fields := foldl (\<lambda>d field_name.
                        if field_name \<in> set (map fst d) then AList.delete field_name d else d)
                  (row_fields r) field_names\<rparr>"

definition delete_fields :: "'f table \<Rightarrow> pystr list \<Rightarrow> 'f table" where
  "delete_fields t field_names =
     t\<lparr>t_fields := filter (\<lambda>f. name f \<notin> set field_names) (t_fields t),
       t_rows := map (delete_keys field_names) (t_rows t)\<rparr>"

fun check_kwargs :: "field list \<Rightarrow> (pystr \<times> 'f pyval) list \<Rightarrow> exn option" where
  "check_kwargs fs [] = None"
| "check_kwargs fs ((field_name, field_value) # kwargs) =
     (case List.find (\<lambda>f. name f = field_name) fs of
        None \<Rightarrow> Some (UnknownField field_name)
      | Some f \<Rightarrow>
          if isinstance field_value (data_type f) then check_kwargs fs kwargs
          else Some (TypeMismatch field_name))"

definition add_row ::
  "'f interp \<Rightarrow> 'f table \<Rightarrow> (pystr \<times> 'f pyval) list \<Rightarrow> exn option \<times> 'f table" where
  "add_row py t kwargs =
     (if length kwargs = length (t_fields t) then
        (case check_kwargs (t_fields t) kwargs of
           Some e \<Rightarrow> (Some e, t)
         | None \<Rightarrow>
             (case Row_init py kwargs of
                Inl e \<Rightarrow> (Some e, t)
              | Inr r \<Rightarrow> (None, t\<lparr>t_rows := t_rows t @ [r]\<rparr>)))
      else (Some SchemaMismatch, t))"

definition delete_row :: "'f table \<Rightarrow> ('f row \<Rightarrow> bool) \<Rightarrow> 'f table" where
  "delete_row t condition = t\<lparr>t_rows := filter (\<lambda>r. \<not> condition r) (t_rows t)\<rparr>"

definition find_rows :: "'f table \<Rightarrow> ('f row \<Rightarrow> bool) \<Rightarrow> int \<Rightarrow> 'f row list" where
  "find_rows t condition amount =
     (let matching_rows = filter condition (t_rows t)
      in if amount > 0 then take (nat amount) matching_rows else matching_rows)"

subsection \<open>\<^verbatim>\<open>Database\<close>\<close>

record 'f database =
  tables :: "(pystr \<times> 'f table) list"
  db_file :: pystr

definition Database_init :: "pystr \<Rightarrow> 'f database" where
  "Database_init file = \<lparr>tables = [], db_file = file\<rparr>"

definition create ::
  "'f database \<Rightarrow> pystr \<Rightarrow> (pystr \<times> pytype) list \<Rightarrow> (exn + 'f table) \<times> 'f database" where
  "create db table_name fields_dict =
     (if table_name \<in> set (map fst (tables db)) then (Inl (TableAlreadyExists table_name), db)
      else
        (let t = add_fields (Table_init table_name) fields_dict
         in (Inr t, db\<lparr>tables := AList.update table_name t (tables db)\<rparr>)))"

definition delete_table :: "'f database \<Rightarrow> pystr \<Rightarrow> exn option \<times> 'f database" where
  "delete_table db table_name =
     (if table_name \<in> set (map fst (tables db))
      then (None, db\<lparr>tables := AList.delete table_name (tables db)\<rparr>)
      else (Some (TableNotFound table_name), db))"

definition get_table :: "'f database \<Rightarrow> pystr \<Rightarrow> exn + 'f table" where
  "get_table db table_name =
     (case map_of (tables db) table_name of
        None \<Rightarrow> Inl (TableNotFound table_name)
      | Some t \<Rightarrow> Inr t)"

subsection \<open>The persistence engine\<close>

text \<open>
  Modelled from the spec: the file engine (the \<^verbatim>\<open>sqlite3\<close> module and the database file)
  is an external collaborator, and section 6 of the specification gives its contract:
  \<^verbatim>\<open>DROP TABLE IF EXISTS\<close>, \<^verbatim>\<open>CREATE TABLE\<close> with a kind per column, a parameterised
  \<^verbatim>\<open>INSERT\<close> that names its columns, \<^verbatim>\<open>SELECT *\<close>, the list of table names and the
  columns of a table as pairs of name and kind, in column order. The file is the list of
  its tables in creation order; a row is the list of its values in column order, with
  \<^verbatim>\<open>None\<close> for a column the \<^verbatim>\<open>INSERT\<close> did not name. An \<^verbatim>\<open>INSERT\<close> into a table or a
  column that does not exist fails. Otherwise the engine stores the values it is given
  and accepts every name: the type affinity of a column, the range of a stored integer
  and the syntax of identifiers are not part of the contract and not modelled.
\<close>

record 'f sql_table =
  sql_name :: pystr
  sql_columns :: "(pystr \<times> pystr) list"
  sql_rows :: "'f pyval list list"

type_synonym 'f engine = "'f sql_table list"

definition drop_table_if_exists :: "pystr \<Rightarrow> 'f engine \<Rightarrow> 'f engine" where
  "drop_table_if_exists nm st = filter (\<lambda>t. sql_name t \<noteq> nm) st"

definition create_table :: "pystr \<Rightarrow> (pystr \<times> pystr) list \<Rightarrow> 'f engine \<Rightarrow> 'f engine" where
  "create_table nm cols st = st @ [\<lparr>sql_name = nm, sql_columns = cols, sql_rows = []\<rparr>]"

definition insert_into ::
  "pystr \<Rightarrow> pystr list \<Rightarrow> 'f pyval list \<Rightarrow> 'f engine \<Rightarrow> exn + 'f engine" where
  "insert_into nm columns vals st =
     (case List.find (\<lambda>t. sql_name t = nm) st of
        None \<Rightarrow> Inl OperationalError
      | Some t0 \<Rightarrow>
          if list_all (\<lambda>c. c \<in> set (map fst (sql_columns t0))) columns then
            Inr (map (\<lambda>t. if sql_name t = nm
                          then t\<lparr>sql_rows := sql_rows t @
                                 [map (\<lambda>c. case map_of (zip columns vals) (fst c) of
                                              None \<Rightarrow> PNone
                                            | Some v \<Rightarrow> v) (sql_columns t)]\<rparr>
                          else t) st)
          else Inl OperationalError)"

definition table_names :: "'f engine \<Rightarrow> pystr list" where
  "table_names st = map sql_name st"

definition table_info :: "'f engine \<Rightarrow> pystr \<Rightarrow> (pystr \<times> pystr) list" where
  "table_info st nm = (case List.find (\<lambda>t. sql_name t = nm) st of
                         None \<Rightarrow> [] | Some t \<Rightarrow> sql_columns t)"

definition select_all :: "'f engine \<Rightarrow> pystr \<Rightarrow> 'f pyval list list" where
  "select_all st nm = (case List.find (\<lambda>t. sql_name t = nm) st of
                         None \<Rightarrow> [] | Some t \<Rightarrow> sql_rows t)"

subsection \<open>\<^verbatim>\<open>Database.save\<close> and \<^verbatim>\<open>Database.load\<close>\<close>

text \<open>
  \<open>save\<close> takes the content of the file before the call and returns its content
  after it. \<open>insert_values\<close> is the list \<^verbatim>\<open>[serialize(value) for value in row.fields.values()]\<close>
  that is bound to the \<^verbatim>\<open>INSERT\<close>.
\<close>

definition column_kind :: "pytype \<Rightarrow> pystr" where
  "column_kind dt =
     (if dt = T_list \<or> dt = T_dict then str ''JSON''
      else if dt = T_float then str ''REAL''
      else if dt = T_int then str ''INTEGER''
      else str ''TEXT'')"

fun insert_values :: "'f interp \<Rightarrow> (pystr \<times> 'f pyval) list \<Rightarrow> exn + 'f pyval list" where
  "insert_values py [] = Inr []"
| "insert_values py ((k, v) # d) =
     (case serialize py v of
        Inl e \<Rightarrow> Inl e
      | Inr w \<Rightarrow> (case insert_values py d of Inl e \<Rightarrow> Inl e | Inr ws \<Rightarrow> Inr (w # ws)))"

fun save_rows :: "'f interp \<Rightarrow> pystr \<Rightarrow> 'f row list \<Rightarrow> 'f engine \<Rightarrow> exn + 'f engine" where
  "save_rows py table_name [] st = Inr st"
| "save_rows py table_name (r # rs) st =
     (case insert_values py (row_fields r) of
        Inl e \<Rightarrow> Inl e
      | Inr vals \<Rightarrow>
          (case insert_into table_name (map fst (row_fields r)) vals st of
             Inl e \<Rightarrow> Inl e
           | Inr st' \<Rightarrow> save_rows py table_name rs st'))"

fun save_tables ::
  "'f interp \<Rightarrow> (pystr \<times> 'f table) list \<Rightarrow> 'f engine \<Rightarrow> exn + 'f engine" where
  "save_tables py [] st = Inr st"
| "save_tables py ((table_name, t) # ts) st =
     (let field_definitions = map (\<lambda>f. (name f, column_kind (data_type f))) (t_fields t);
          st1 = create_table table_name field_definitions (drop_table_if_exists table_name st)
      in case save_rows py table_name (t_rows t) st1 of
           Inl e \<Rightarrow> Inl e
         | Inr st2 \<Rightarrow> save_tables py ts st2)"

definition save :: "'f interp \<Rightarrow> 'f database \<Rightarrow> 'f engine \<Rightarrow> exn + 'f engine" where
  "save py db st = save_tables py (tables db) st"

text \<open>
  \<open>load\<close> returns the exception (\<open>None\<close> when it returns normally) and the database
  as the call leaves it. The table \<^verbatim>\<open>create\<close> returns is the object the database
  holds, so the rows \<^verbatim>\<open>add_row\<close> appends to it are written back to the database.
  \<open>load_kwargs\<close> is the dictionary
  \<^verbatim>\<open>{columns[i][1]: deserialize(row[i]) for i in range(len(columns))}\<close>.
\<close>

definition field_type :: "pystr \<Rightarrow> pytype" where
  "field_type col_type =
     (if col_type = str ''JSON'' then T_Union_list_dict
      else if col_type = str ''REAL'' then T_float
      else if col_type = str ''INTEGER'' then T_int
      else T_str)"

fun load_kwargs ::
  "'f interp \<Rightarrow> pystr list \<Rightarrow> 'f pyval list \<Rightarrow> (pystr \<times> 'f pyval) list \<Rightarrow>
   exn + (pystr \<times> 'f pyval) list" where
  "load_kwargs py [] row d = Inr d"
| "load_kwargs py (c # cs) [] d = Inl IndexError"
| "load_kwargs py (c # cs) (x # row) d =
     (case deserialize py x of
        Inl e \<Rightarrow> Inl e
      | Inr v \<Rightarrow> load_kwargs py cs row (AList.update c v d))"

fun load_rows ::
  "'f interp \<Rightarrow> pystr list \<Rightarrow> 'f pyval list list \<Rightarrow> 'f table \<Rightarrow> exn option \<times> 'f table" where
  "load_rows py cols [] t = (None, t)"
| "load_rows py cols (row # rows) t =
     (case load_kwargs py cols row [] of
        Inl e \<Rightarrow> (Some e, t)
      | Inr kwargs \<Rightarrow>
          (case add_row py t kwargs of
             (Some e, t') \<Rightarrow> (Some e, t')
           | (None, t') \<Rightarrow> load_rows py cols rows t'))"

fun load_tables ::
  "'f interp \<Rightarrow> 'f engine \<Rightarrow> pystr list \<Rightarrow> 'f database \<Rightarrow> exn option \<times> 'f database" where
  "load_tables py st [] db = (None, db)"
| "load_tables py st (table_name # tns) db =
     (if table_name = str ''sqlite_sequence'' then load_tables py st tns db
      else
        (let columns = table_info st table_name;
             fields_dict = foldl (\<lambda>d col. AList.update (fst col) (field_type (snd col)) d)
                             [] columns
         in case create db table_name fields_dict of
              (Inl e, db1) \<Rightarrow> (Some e, db1)
            | (Inr t, db1) \<Rightarrow>
                (case load_rows py (map fst columns) (select_all st table_name) t of
                   (Some e, t') \<Rightarrow>
                     (Some e, db1\<lparr>tables := AList.update table_name t' (tables db1)\<rparr>)
                 | (None, t') \<Rightarrow>
                     load_tables py st tns
                       (db1\<lparr>tables := AList.update table_name t' (tables db1)\<rparr>))))"

definition load :: "'f interp \<Rightarrow> 'f database \<Rightarrow> 'f engine \<Rightarrow> exn option \<times> 'f database" where
  "load py db st = load_tables py st (table_names st) db"

section \<open>Values that JSON represents exactly\<close>

text \<open>
  The values for which \<^verbatim>\<open>json.loads(json.dumps(v))\<close> gives \<open>v\<close> back. A text is
  \<open>str_ok\<close> when its code points are below \<^verbatim>\<open>0x110000\<close> and no high surrogate is
  followed by a low surrogate (the decoder would join the two escapes into one
  character). A float is \<open>float_ok\<close> when it is an infinity, or finite with a \<^verbatim>\<open>repr\<close>
  that is a JSON number with a fraction or an exponent and that \<^verbatim>\<open>float\<close> reads back as
  the same float (what the interpreter's shortest \<^verbatim>\<open>repr\<close> promises); \<^verbatim>\<open>nan\<close> is not,
  since it is not equal to itself. A value is \<open>json_exact\<close> when it contains no
  \<^verbatim>\<open>bytes\<close>, its texts and floats are as above, and every dictionary in it has
  distinct keys that are all text.
\<close>

fun str_ok :: "pystr \<Rightarrow> bool" where
  "str_ok [] = True"
| "str_ok [c] = (c < 1114112)"
| "str_ok (c # d # s) =
     (c < 1114112 \<and> \<not> (55296 \<le> c \<and> c \<le> 56319 \<and> 56320 \<le> d \<and> d \<le> 57343) \<and>
      str_ok (d # s))"







section \<open>The save step as the specification words it\<close>




section \<open>Example data\<close>

definition five_rows :: "'f table" where
  "five_rows =
     \<lparr>t_name = str ''t'', t_fields = [\<lparr>name = str ''n'', data_type = T_int\<rparr>],
      t_rows = map (\<lambda>i. \<lparr>row_fields = [(str ''n'', PInt i)]\<rparr>) [1, 2, 3, 4, 5, 6]\<rparr>"

definition users :: "'f table" where
  "users = add_fields (Table_init (str ''users'')) [(str ''name'', T_str), (str ''age'', T_int)]"

definition people :: "'f table" where
  "people =
     \<lparr>t_name = str ''people'',
      t_fields = [\<lparr>name = str ''name'', data_type = T_str\<rparr>,
                  \<lparr>name = str ''age'', data_type = T_int\<rparr>],
      t_rows = [\<lparr>row_fields = [(str ''name'', PStr (str ''Al'')), (str ''age'', PInt 30)]\<rparr>,
                \<lparr>row_fields = [(str ''age'', PInt 41), (str ''name'', PStr (str ''Bo''))]\<rparr>]\<rparr>"


definition contacts_table :: "'f table" where
  "contacts_table =
     \<lparr>t_name = str ''contacts'',
      t_fields = [\<lparr>name = str ''phone'', data_type = T_str\<rparr>],
      t_rows = [\<lparr>row_fields = [(str ''phone'', PStr (str ''5551234''))]\<rparr>]\<rparr>"

definition contacts :: "'f database" where
  "contacts = \<lparr>tables = [(str ''contacts'', contacts_table)], db_file = str ''c.db''\<rparr>"

definition contacts_file :: "'f engine" where
  "contacts_file =
     [\<lparr>sql_name = str ''contacts'', sql_columns = [(str ''phone'', str ''TEXT'')],
       sql_rows = [[PStr (str ''5551234'')]]\<rparr>]"

section \<open>The parser consumes its input\<close>



section \<open>Printing and parsing numbers\<close>























section \<open>Printing and parsing strings\<close>







lemma scanstring_quote: "scanstring (34 # r) = Some ([], r)"
  by simp











section \<open>Printing and parsing values\<close>



























section \<open>Lemmas about the library\<close>

lemma delete_step:
  "(if n \<in> set (map fst d) then AList.delete n d else d) = filter (\<lambda>kv. fst kv \<noteq> n) d"
proof -
  have "filter (\<lambda>kv. fst kv \<noteq> n) d = d" if "n \<notin> set (map fst d)"
    using that by (induction d) auto
  moreover have "AList.delete n d = filter (\<lambda>kv. fst kv \<noteq> n) d"
    by (induction d) auto
  ultimately show ?thesis by simp
qed

lemma foldl_delete:
  "foldl (\<lambda>d n. if n \<in> set (map fst d) then AList.delete n d else d) d ns =
   filter (\<lambda>kv. fst kv \<notin> set ns) d"
proof (induction ns arbitrary: d)
  case Nil
  then show ?case by simp
next
  case (Cons n ns)
  have "filter (\<lambda>kv. fst kv \<notin> set ns) (filter (\<lambda>kv. fst kv \<noteq> n) d) =
        filter (\<lambda>kv. fst kv \<notin> set (n # ns)) d"
    by (induction d) auto
  with Cons show ?case by (simp only: foldl_Cons delete_step)
qed

lemma row_fields_delete_keys:
  "row_fields (delete_keys ns r) = filter (\<lambda>kv. fst kv \<notin> set ns) (row_fields r)"
  unfolding delete_keys_def foldl_delete by simp

lemma decode_all_keys: "decode_all py d = Inr m \<Longrightarrow> map fst m = map KStr (map fst d)"
  by (induction d arbitrary: m) (auto split: sum.splits)

lemma delete_keys_id: "set ns \<inter> set (map fst (row_fields r)) = {} \<Longrightarrow> delete_keys ns r = r"
proof -
  assume a: "set ns \<inter> set (map fst (row_fields r)) = {}"
  have "filter (\<lambda>kv. fst kv \<notin> set ns) d = d" if "set ns \<inter> set (map fst d) = {}"
    for d :: "(pystr \<times> 'a pyval) list"
    using that by (induction d) auto
  with a have "row_fields (delete_keys ns r) = row_fields r"
    by (simp add: row_fields_delete_keys)
  then show ?thesis by (simp add: delete_keys_def)
qed

lemma check_kwargs_Some:
  "check_kwargs fs kwargs = Some e \<Longrightarrow> e \<in> range UnknownField \<union> range TypeMismatch"
  by (induction fs kwargs rule: check_kwargs.induct) (auto split: option.splits if_splits)

lemma check_kwargs_unknown:
  "(n, v) \<in> set kwargs \<Longrightarrow> n \<notin> set (map name fs) \<Longrightarrow> check_kwargs fs kwargs \<noteq> None"
proof (induction fs kwargs rule: check_kwargs.induct)
  case (1 fs)
  then show ?case by simp
next
  case (2 fs field_name field_value kwargs)
  show ?case
  proof (cases "List.find (\<lambda>f. name f = field_name) fs")
    case None
    then show ?thesis by simp
  next
    case (Some f)
    then have "field_name \<in> set (map name fs)"
      by (auto simp: find_Some_iff)
    with 2 Some show ?thesis by auto
  qed
qed

lemma check_kwargs_mistyped:
  "(n, v) \<in> set kwargs \<Longrightarrow> List.find (\<lambda>f. name f = n) fs = Some f \<Longrightarrow>
   \<not> isinstance v (data_type f) \<Longrightarrow> check_kwargs fs kwargs \<noteq> None"
  by (induction fs kwargs rule: check_kwargs.induct) (auto split: option.splits)

lemma deserialize_not_text:
  "type_of v \<noteq> T_str \<Longrightarrow> type_of v \<noteq> T_bytes \<Longrightarrow> deserialize py v = Inr v"
  by (cases v) (simp_all add: deserialize_def json_loads_def)

lemma json_loads_text: "json_loads py (PStr s) \<in> {Inl JSONDecodeError} \<union> range Inr"
  by (auto simp: json_loads_def decode_text_def split: option.splits)

lemma bytes_decode_ff: "bytes_decode [255] = None"
  by (simp add: bytes_decode_def detect_encoding_def)

lemma deserialize_returns:
  "type_of v \<noteq> T_bytes \<Longrightarrow> \<exists>r. deserialize py v = Inr r"
proof (cases v)
  case (PStr s)
  with json_loads_text [of py s] show ?thesis
    by (auto simp: deserialize_def)
qed (simp_all add: deserialize_def json_loads_def)






lemma str_ok_ascii: "list_all (\<lambda>c. c < 128) s \<Longrightarrow> str_ok s"
  by (induction s rule: str_ok.induct) auto










lemma scan_phone: "scan_once py (str ''5551234'') = Some (PInt 5551234, [])"
  by (simp add: scan_once.simps str_def match_number_def match_integer_def match_frac_def
      match_exp_def is_digit_def int_of_str_def digits_val_def)

lemma deserialize_phone: "deserialize py (PStr (str ''5551234'')) = Inr (PInt 5551234)"
  using scan_phone [of py]
  by (simp add: deserialize_def json_loads_def decode_text_def skip_ws_def is_ws_def str_def)

subsection \<open>\<^verbatim>\<open>Row.get\<close> with the empty name, on rows that hold no bytes\<close>

text \<open>
  On a row that holds no \<^verbatim>\<open>bytes\<close>, \<^verbatim>\<open>get('')\<close> returns the dictionary of every stored
  name and its decoded value; it never raises the \<^verbatim>\<open>KeyError\<close> of a missing name; and the
  value stored under the empty name is never what it returns, so that value cannot be
  read on its own.
\<close>

lemma decode_all_returns:
  "list_all (\<lambda>kv. type_of (snd kv) \<noteq> T_bytes) d \<Longrightarrow> \<exists>m. decode_all py d = Inr m"
proof (induction d)
  case Nil
  show ?case by simp
next
  case (Cons kv d)
  obtain i e where kv: "kv = (i, e)" by (cases kv)
  with Cons.prems have "type_of e \<noteq> T_bytes" by simp
  from deserialize_returns [OF this] obtain v where "deserialize py e = Inr v" by blast
  moreover from Cons obtain m where "decode_all py d = Inr m" by auto
  ultimately show ?case using kv by simp
qed

lemma decode_all_values:
  "decode_all py d = Inr m \<Longrightarrow>
   list_all2 (\<lambda>kv kv'. fst kv' = KStr (fst kv) \<and> deserialize py (snd kv) = Inr (snd kv')) d m"
  by (induction d arbitrary: m) (auto split: sum.splits)

lemma Row_get_empty_name:
  assumes "list_all (\<lambda>kv. type_of (snd kv) \<noteq> T_bytes) (row_fields r)"
  shows "\<exists>m. Row_get py r [] = Inr (PDict m) \<and>
     list_all2 (\<lambda>kv kv'. fst kv' = KStr (fst kv) \<and> deserialize py (snd kv) = Inr (snd kv'))
       (row_fields r) m"
proof -
  from decode_all_returns [OF assms] obtain m where m: "decode_all py (row_fields r) = Inr m"
    by blast
  from decode_all_values [OF m] m show ?thesis by (simp add: Row_get_def)
qed

lemma Row_get_empty_name_no_key_error: "Row_get py r [] \<noteq> Inl (FieldNotFound n)"
proof -
  have "deserialize py e \<noteq> Inl (FieldNotFound n)" for e
    by (auto simp: deserialize_def json_loads_def decode_text_def
        split: sum.splits pyval.splits option.splits if_splits)
  then have "decode_all py d \<noteq> Inl (FieldNotFound n)" for d
    by (induction d) (auto split: sum.splits)
  then show ?thesis by (auto simp: Row_get_def split: sum.splits)
qed

lemma decode_all_member:
  "decode_all py d = Inr m \<Longrightarrow> (i, e) \<in> set d \<Longrightarrow>
   \<exists>v. (KStr i, v) \<in> set m \<and> deserialize py e = Inr v"
  by (induction d arbitrary: m) (auto split: sum.splits)

lemma size_in_dict: "(k, v) \<in> set m \<Longrightarrow> size v < size (PDict m)"
  by (induction m) auto

lemma Row_get_empty_name_not_single:
  assumes "([], e) \<in> set (row_fields r)" and "deserialize py e = Inr v"
  shows "Row_get py r [] \<noteq> Inr v"
proof
  assume g: "Row_get py r [] = Inr v"
  then obtain m where m: "decode_all py (row_fields r) = Inr m" "v = PDict m"
    by (auto simp: Row_get_def split: sum.splits)
  from decode_all_member [OF m(1) assms(1)] assms(2) have "(KStr [], v) \<in> set m" by auto
  from size_in_dict [OF this] m(2) show False by simp
qed

section \<open>The claims\<close>

subsection \<open>C1: \<^verbatim>\<open>save\<close>, then \<^verbatim>\<open>load\<close>\<close>

text \<open>
  C1. The claim is that \<^verbatim>\<open>save\<close> followed by \<^verbatim>\<open>load\<close> into a fresh database gives
  every table back. \<^verbatim>\<open>load\<close> decodes every value of a row, whatever its column, before
  it hands the row to \<^verbatim>\<open>add_row\<close>. A table with the one text field \<^verbatim>\<open>phone\<close> and the
  row \<^verbatim>\<open>phone='5551234'\<close> (added through \<^verbatim>\<open>add_row\<close>) is saved as it is; on \<^verbatim>\<open>load\<close>
  the text is decoded to the integer 5551234, \<^verbatim>\<open>add_row\<close> raises the \<^verbatim>\<open>ValueError\<close>
  \<open>TypeMismatch\<close> for the field, and the loaded table has no row.
\<close>

theorem C1_load_rejects_numeric_text:
  "\<forall>py :: 'f interp.
     add_row py (add_fields (Table_init (str ''contacts'')) [(str ''phone'', T_str)])
       [(str ''phone'', PStr (str ''5551234''))] = (None, contacts_table) \<and>
     save py contacts [] = Inr contacts_file \<and>
     load py (Database_init (str ''c.db'')) contacts_file =
       (Some (TypeMismatch (str ''phone'')),
        \<lparr>tables = [(str ''contacts'', contacts_table\<lparr>t_rows := []\<rparr>)], db_file = str ''c.db''\<rparr>)"
proof
  fix py :: "'f interp"
  have a: "add_row py (add_fields (Table_init (str ''contacts'')) [(str ''phone'', T_str)])
       [(str ''phone'', PStr (str ''5551234''))] = (None, contacts_table)"
    by (simp add: add_row_def add_fields_def add_field_def Table_init_def contacts_table_def
        isinstance_def Row_init_def serialize_def)
  have s: "save py contacts [] = Inr contacts_file"
    by (simp add: save_def contacts_def contacts_table_def contacts_file_def column_kind_def
        create_table_def drop_table_if_exists_def insert_into_def serialize_def isinstance_def
        str_def)
  have k: "load_kwargs py [str ''phone''] [PStr (str ''5551234'')] [] =
             Inr [(str ''phone'', PInt 5551234)]"
    by (simp add: deserialize_phone)
  have n: "str ''contacts'' \<noteq> str ''sqlite_sequence''" by (simp add: str_def)
  have f: "field_type (str ''TEXT'') = T_str" by (simp add: field_type_def str_def)
  let ?t0 = "contacts_table\<lparr>t_rows := []\<rparr> :: 'f table"
  have c: "create (Database_init (str ''c.db'')) (str ''contacts'') [(str ''phone'', T_str)] =
             (Inr ?t0, \<lparr>tables = [(str ''contacts'', ?t0)], db_file = str ''c.db''\<rparr>)"
    by (simp add: create_def Database_init_def add_fields_def add_field_def Table_init_def
        contacts_table_def Let_def)
  have r: "load_rows py [str ''phone''] [[PStr (str ''5551234'')]] ?t0 =
             (Some (TypeMismatch (str ''phone'')), ?t0)"
    by (simp add: deserialize_phone add_row_def isinstance_def contacts_table_def)
  have "load py (Database_init (str ''c.db'')) contacts_file =
       (Some (TypeMismatch (str ''phone'')),
        \<lparr>tables = [(str ''contacts'', contacts_table\<lparr>t_rows := []\<rparr>)], db_file = str ''c.db''\<rparr>)"
    by (simp add: load_def table_names_def contacts_file_def table_info_def select_all_def
        n f c r Let_def del: load_rows.simps)
  with a s show "add_row py (add_fields (Table_init (str ''contacts'')) [(str ''phone'', T_str)])
       [(str ''phone'', PStr (str ''5551234''))] = (None, contacts_table) \<and>
     save py contacts [] = Inr contacts_file \<and>
     load py (Database_init (str ''c.db'')) contacts_file =
       (Some (TypeMismatch (str ''phone'')),
        \<lparr>tables = [(str ''contacts'', contacts_table\<lparr>t_rows := []\<rparr>)], db_file = str ''c.db''\<rparr>)"
    by simp
qed

subsection \<open>C2: a failing \<^verbatim>\<open>add_row\<close> leaves the table as it was\<close>

text \<open>
  C2. \<^verbatim>\<open>add_row\<close> is atomic. When the number of keyword arguments differs from the
  number of fields the call raises \<open>SchemaMismatch\<close>; when some argument names no field
  of the schema, or its value is not an instance of the field's type, the call raises
  one of the three validation errors; and whenever the call raises at all, the table
  after the call is the table before it, rows included. A call that returns appends
  exactly the one new row.
\<close>

theorem C2_add_row_atomic:
  "(length kwargs \<noteq> length (t_fields t) \<longrightarrow>
      add_row py t kwargs = (Some SchemaMismatch, t)) \<and>
   ((n, v) \<in> set kwargs \<and> n \<notin> set (map name (t_fields t)) \<longrightarrow>
      (\<exists>e \<in> {SchemaMismatch} \<union> range UnknownField \<union> range TypeMismatch.
         add_row py t kwargs = (Some e, t))) \<and>
   ((n, v) \<in> set kwargs \<and> List.find (\<lambda>f. name f = n) (t_fields t) = Some f \<and>
    \<not> isinstance v (data_type f) \<longrightarrow>
      (\<exists>e \<in> {SchemaMismatch} \<union> range UnknownField \<union> range TypeMismatch.
         add_row py t kwargs = (Some e, t))) \<and>
   (fst (add_row py t kwargs) \<noteq> None \<longrightarrow> snd (add_row py t kwargs) = t) \<and>
   (fst (add_row py t kwargs) = None \<longrightarrow>
      (\<exists>r. Row_init py kwargs = Inr r \<and> snd (add_row py t kwargs) = t\<lparr>t_rows := t_rows t @ [r]\<rparr>))"
proof -
  have fail: "\<exists>e \<in> {SchemaMismatch} \<union> range UnknownField \<union> range TypeMismatch.
         add_row py t kwargs = (Some e, t)"
    if "check_kwargs (t_fields t) kwargs \<noteq> None"
  proof (cases "length kwargs = length (t_fields t)")
    case False
    then show ?thesis by (simp add: add_row_def)
  next
    case True
    from that obtain e where e: "check_kwargs (t_fields t) kwargs = Some e" by auto
    from check_kwargs_Some [OF e] True e show ?thesis
      by (auto simp: add_row_def)
  qed
  show ?thesis
    using fail check_kwargs_unknown [of n v kwargs "t_fields t"]
      check_kwargs_mistyped [of n v kwargs "t_fields t" f]
    by (auto simp: add_row_def split: option.splits sum.splits)
qed

theorem C2_add_row_atomic_witness:
  "\<forall>py :: 'f interp.
     add_row py users [(str ''name'', PStr (str ''Alice''))] = (Some SchemaMismatch, users) \<and>
     add_row py users [(str ''name'', PStr (str ''Alice'')), (str ''agee'', PInt 30)] =
       (Some (UnknownField (str ''agee'')), users) \<and>
     add_row py users [(str ''name'', PStr (str ''Alice'')), (str ''age'', PStr (str ''30''))] =
       (Some (TypeMismatch (str ''age'')), users) \<and>
     add_row py users [(str ''name'', PStr (str ''Alice'')), (str ''age'', PInt 30)] =
       (None, users\<lparr>t_rows := [\<lparr>row_fields = [(str ''name'', PStr (str ''Alice'')),
                                                 (str ''age'', PInt 30)]\<rparr>]\<rparr>)"
proof
  fix py :: "'f interp"
  let ?a = "[(str ''name'', PStr (str ''Alice''))] :: (pystr \<times> 'f pyval) list"
  let ?b = "[(str ''name'', PStr (str ''Alice'')), (str ''agee'', PInt 30)]
              :: (pystr \<times> 'f pyval) list"
  let ?c = "[(str ''name'', PStr (str ''Alice'')), (str ''age'', PStr (str ''30''))]
              :: (pystr \<times> 'f pyval) list"
  let ?d = "[(str ''name'', PStr (str ''Alice'')), (str ''age'', PInt 30)]
              :: (pystr \<times> 'f pyval) list"
  have u: "t_fields (users :: 'f table) =
             [\<lparr>name = str ''name'', data_type = T_str\<rparr>, \<lparr>name = str ''age'', data_type = T_int\<rparr>]"
    "t_rows (users :: 'f table) = []"
    by (simp_all add: users_def add_fields_def add_field_def Table_init_def)
  have "add_row py users ?a = (Some SchemaMismatch, users)"
    using C2_add_row_atomic [of ?a users py] by (simp add: u)
  moreover have "add_row py users ?b = (Some (UnknownField (str ''agee'')), users)"
    using C2_add_row_atomic [of ?b users py "str ''agee''" "PInt 30"]
    by (simp add: u add_row_def str_def isinstance_def)
  moreover have "add_row py users ?c = (Some (TypeMismatch (str ''age'')), users)"
    using C2_add_row_atomic [of ?c users py "str ''age''" "PStr (str ''30'')"
        "\<lparr>name = str ''age'', data_type = T_int\<rparr>"]
    by (simp add: u add_row_def str_def isinstance_def)
  moreover have "add_row py users ?d =
       (None, users\<lparr>t_rows := [\<lparr>row_fields = ?d\<rparr>]\<rparr>)"
    using C2_add_row_atomic [of ?d users py]
    by (simp add: u add_row_def str_def isinstance_def Row_init_def serialize_def)
  ultimately show "add_row py users ?a = (Some SchemaMismatch, users) \<and>
     add_row py users ?b = (Some (UnknownField (str ''agee'')), users) \<and>
     add_row py users ?c = (Some (TypeMismatch (str ''age'')), users) \<and>
     add_row py users ?d = (None, users\<lparr>t_rows := [\<lparr>row_fields = ?d\<rparr>]\<rparr>)"
    by simp
qed

subsection \<open>C3: encoding and decoding a composite value\<close>




subsection \<open>C4: scalars through the codec\<close>



subsection \<open>C5: \<^verbatim>\<open>deserialize\<close> on undecodable bytes\<close>

text \<open>
  C5. The claim is that \<^verbatim>\<open>deserialize\<close> never raises. It catches \<^verbatim>\<open>TypeError\<close> and
  \<^verbatim>\<open>JSONDecodeError\<close> only, and \<^verbatim>\<open>json.loads\<close> decodes a \<^verbatim>\<open>bytes\<close> argument before
  it parses: on the one byte \<^verbatim>\<open>b'\xff'\<close>, which is not UTF-8, the
  \<^verbatim>\<open>UnicodeDecodeError\<close> of the decoding leaves \<^verbatim>\<open>deserialize\<close>. (On every value that
  is not \<^verbatim>\<open>bytes\<close> it does return: \<open>deserialize_returns\<close>.)
\<close>

theorem C5_undecodable_bytes:
  "\<forall>py :: 'f interp. deserialize py (PBytes [255]) = Inl UnicodeDecodeError"
  by (simp add: deserialize_def json_loads_def bytes_decode_ff)

subsection \<open>C6: the values \<^verbatim>\<open>save\<close> writes\<close>




subsection \<open>C7: \<^verbatim>\<open>Row.get\<close> of an absent field\<close>

text \<open>
  C7, as amended. For every row and every field name other than the empty string that
  is not a key of the row, \<^verbatim>\<open>get(name)\<close> raises the \<^verbatim>\<open>KeyError\<close> \<open>FieldNotFound name\<close>.
\<close>

theorem C7_get_absent:
  "field \<noteq> [] \<Longrightarrow> field \<notin> set (map fst (row_fields r)) \<Longrightarrow>
   Row_get py r field = Inl (FieldNotFound field)"
proof -
  assume "field \<noteq> []" and "field \<notin> set (map fst (row_fields r))"
  moreover from this have "map_of (row_fields r) field = None"
    by (simp add: map_of_eq_None_iff)
  ultimately show ?thesis by (simp add: Row_get_def)
qed

theorem C7_get_absent_witness:
  "\<forall>py :: 'f interp.
     Row_get py \<lparr>row_fields = [(str ''a'', PInt 1)]\<rparr> (str ''b'') = Inl (FieldNotFound (str ''b''))"
  using C7_get_absent [of "str ''b''" "\<lparr>row_fields = [(str ''a'', PInt 1 :: 'f pyval)]\<rparr>"]
  by (simp add: str_def)

text \<open>
  C7 as stated fails for the empty name: it is no key of the row below, and \<^verbatim>\<open>get('')\<close>
  returns the dictionary of all fields.
\<close>

theorem C7_counterexample:
  "\<forall>py. [] \<notin> set (map fst (row_fields \<lparr>row_fields = [(str ''a'', PInt 1)]\<rparr>)) \<and>
        Row_get py \<lparr>row_fields = [(str ''a'', PInt 1)]\<rparr> [] = Inr (PDict [(KStr (str ''a''), PInt 1)])"
  by (simp add: Row_get_def deserialize_not_text str_def)

subsection \<open>C8: \<^verbatim>\<open>find\<close>\<close>

text \<open>
  C8. With \<^verbatim>\<open>amount\<close> 0, \<^verbatim>\<open>find\<close> returns the rows that satisfy the condition, in the
  order of the table; with a positive \<^verbatim>\<open>amount\<close>, the first \<^verbatim>\<open>amount\<close> of them; and
  with \<^verbatim>\<open>amount\<close> 2 on a table with five matching rows, the first two matching rows.
\<close>

theorem C8_find_limit:
  "find_rows t condition 0 = filter condition (t_rows t) \<and>
   (0 < amount \<longrightarrow>
      find_rows t condition amount = take (nat amount) (filter condition (t_rows t))) \<and>
   (length (filter condition (t_rows t)) = 5 \<longrightarrow>
      find_rows t condition 2 =
        [filter condition (t_rows t) ! 0, filter condition (t_rows t) ! 1])"
proof -
  have "take 2 xs = [xs ! 0, xs ! 1]" if "length xs = 5" for xs :: "'a row list"
  proof -
    from that obtain a b c d e where "xs = [a, b, c, d, e]"
      by (auto simp: length_Suc_conv eval_nat_numeral)
    then show ?thesis by simp
  qed
  then show ?thesis by (simp add: find_rows_def)
qed

theorem C8_find_limit_witness:
  "find_rows (five_rows :: 'f table) (\<lambda>r. row_fields r \<noteq> [(str ''n'', PInt 2)]) 2 =
     [\<lparr>row_fields = [(str ''n'', PInt 1)]\<rparr>, \<lparr>row_fields = [(str ''n'', PInt 3)]\<rparr>]"
  using C8_find_limit [of "five_rows :: 'f table" "\<lambda>r. row_fields r \<noteq> [(str ''n'', PInt 2)]" 2]
  by (simp add: five_rows_def str_def)

subsection \<open>C9: \<^verbatim>\<open>delete_fields\<close>\<close>

text \<open>
  C9. \<^verbatim>\<open>delete_fields\<close> keeps the fields whose name is not listed and, in every row,
  the entries whose key is not listed. No row that \<^verbatim>\<open>find\<close> returns afterwards has a
  listed name among its keys, nor in the dictionary \<^verbatim>\<open>get()\<close> returns. It never raises,
  and when no listed name is a field or a key the table is unchanged.
\<close>

theorem C9_delete_fields:
  "t_fields (delete_fields t field_names) =
     filter (\<lambda>f. name f \<notin> set field_names) (t_fields t) \<and>
   map row_fields (t_rows (delete_fields t field_names)) =
     map (\<lambda>r. filter (\<lambda>kv. fst kv \<notin> set field_names) (row_fields r)) (t_rows t) \<and>
   (\<forall>r \<in> set (find_rows (delete_fields t field_names) condition amount).
      \<forall>n \<in> set field_names.
        n \<notin> set (map fst (row_fields r)) \<and>
        (\<forall>m. Row_get py r [] = Inr (PDict m) \<longrightarrow> KStr n \<notin> set (map fst m))) \<and>
   (set field_names \<inter> set (map name (t_fields t)) = {} \<and>
    (\<forall>r \<in> set (t_rows t). set field_names \<inter> set (map fst (row_fields r)) = {})
      \<longrightarrow> delete_fields t field_names = t)"
proof (intro conjI ballI allI impI)
  show "t_fields (delete_fields t field_names) =
          filter (\<lambda>f. name f \<notin> set field_names) (t_fields t)"
    by (simp add: delete_fields_def)
  show "map row_fields (t_rows (delete_fields t field_names)) =
          map (\<lambda>r. filter (\<lambda>kv. fst kv \<notin> set field_names) (row_fields r)) (t_rows t)"
    by (simp add: delete_fields_def row_fields_delete_keys)
next
  fix r n
  assume r: "r \<in> set (find_rows (delete_fields t field_names) condition amount)"
    and n: "n \<in> set field_names"
  from r have "r \<in> set (t_rows (delete_fields t field_names))"
    by (auto simp: find_rows_def Let_def split: if_splits dest: in_set_takeD)
  then obtain r0 where "r = delete_keys field_names r0"
    by (auto simp: delete_fields_def)
  with n show absent: "n \<notin> set (map fst (row_fields r))"
    by (auto simp: row_fields_delete_keys)
  fix m
  assume "Row_get py r [] = Inr (PDict m)"
  then have "decode_all py (row_fields r) = Inr m"
    by (simp add: Row_get_def split: sum.splits)
  from decode_all_keys [OF this] absent show "KStr n \<notin> set (map fst m)"
    by auto
next
  assume a: "set field_names \<inter> set (map name (t_fields t)) = {} \<and>
    (\<forall>r \<in> set (t_rows t). set field_names \<inter> set (map fst (row_fields r)) = {})"
  then have "filter (\<lambda>f. name f \<notin> set field_names) (t_fields t) = t_fields t"
    by (auto simp: filter_id_conv)
  moreover from a have "map (delete_keys field_names) (t_rows t) = t_rows t"
    by (simp add: map_idI delete_keys_id)
  ultimately show "delete_fields t field_names = t"
    by (simp add: delete_fields_def)
qed

theorem C9_delete_fields_witness:
  "map name (t_fields (delete_fields (people :: 'f table) [str ''age'', str ''zip''])) =
     [str ''name''] \<and>
   map row_fields
     (find_rows (delete_fields (people :: 'f table) [str ''age'', str ''zip'']) (\<lambda>r. True) 0) =
     [[(str ''name'', PStr (str ''Al''))], [(str ''name'', PStr (str ''Bo''))]]"
proof -
  fix py :: "'f interp"
  show ?thesis
    using C9_delete_fields [of "people :: 'f table" "[str ''age'', str ''zip'']" "\<lambda>r. True" 0 py]
    by (simp add: people_def str_def find_rows_def)
qed

subsection \<open>C10: \<^verbatim>\<open>Row.get\<close> with the empty name\<close>

text \<open>
  C10. The claim is that \<^verbatim>\<open>get('')\<close> never raises. It decodes every stored value, and
  \<^verbatim>\<open>deserialize\<close> raises on undecodable bytes (the defect of C5): for the row
  \<^verbatim>\<open>Row(x=b'\xff')\<close> the call raises \<^verbatim>\<open>UnicodeDecodeError\<close>. (The rest of the claim
  holds on every row that holds no \<^verbatim>\<open>bytes\<close>: \<open>Row_get_empty_name\<close>,
  \<open>Row_get_empty_name_no_key_error\<close> and \<open>Row_get_empty_name_not_single\<close>.)
\<close>

theorem C10_get_all_undecodable:
  "\<forall>py :: 'f interp.
     Row_init py [(str ''x'', PBytes [255])] = Inr \<lparr>row_fields = [(str ''x'', PBytes [255])]\<rparr> \<and>
     Row_get py \<lparr>row_fields = [(str ''x'', PBytes [255])]\<rparr> [] = Inl UnicodeDecodeError"
  by (simp add: Row_init_def serialize_def isinstance_def Row_get_def deserialize_def
      json_loads_def bytes_decode_ff)

end
